theory Spec2Isabelle
  imports Main
begin

section \<open>Python values and exceptions\<close>

text \<open>
  The exceptions the two notebooks can raise. Each carries the name Python gives it; the
  payload is the message or the offending key. \<open>RequestException\<close> stands for whatever
  \<^verbatim>\<open>requests.get\<close> raises when the fetch fails.
\<close>

datatype error =
    RequestException string
  | ValueError string
  | KeyError string
  | TypeError string
  | IndexError string
  | AttributeError string

text \<open>
  Numbers are kept polymorphic: the evaluator is stated for any carrier \<open>'a\<close> with an
  associative addition with zero, a subtraction and an absolute value (\<open>int\<close>,
  \<open>real\<close>, ...). Rounding of machine floats is not part of the model.

  A tensor handed to \<^verbatim>\<open>step\<close> is modelled up to rank one: a zero-dimensional tensor
  holds one number, a one-dimensional tensor holds a batch of numbers. \<^verbatim>\<open>tolist()\<close>
  gives a bare Python number for the former and a Python list for the latter.
\<close>

datatype 'a tensor = Tensor0 'a | Tensor1 "'a list"

datatype 'a pyobj = PyNum 'a | PyList "'a list"

fun tolist :: "'a tensor \<Rightarrow> 'a pyobj" where
  "tolist (Tensor0 x) = PyNum x"
| "tolist (Tensor1 xs) = PyList xs"

text \<open>
  \<^verbatim>\<open>list.extend(obj)\<close>: a list argument is appended element by element; a bare number is
  not iterable and Python raises \<^verbatim>\<open>TypeError\<close>, leaving the list as it was.
\<close>

fun list_extend :: "'a list \<Rightarrow> 'a pyobj \<Rightarrow> error + 'a list" where
  "list_extend xs (PyList ys) = Inr (xs @ ys)"
| "list_extend xs (PyNum y) = Inl (TypeError ''object is not iterable'')"

text \<open>
  What the model returns to \<^verbatim>\<open>step\<close>: either the tensor itself or a dictionary of
  tensors (a multi-output model), from which \<^verbatim>\<open>_model_output_key\<close> selects one.
\<close>

datatype 'a model_output = Plain "'a tensor" | Keyed "string \<rightharpoonup> 'a tensor"

section \<open>ManhattanDistanceEvaluator\<close>

record 'a evaluator =
  model_output_key :: "string option"
  batch_target_key :: string
  outputs :: "'a list"
  targets :: "'a list"

text \<open>
  Modelled from the spec: \<^verbatim>\<open>GenericEvaluatorResults\<close> is a class of the wrapper library,
  which the spec treats as an opaque collaborator; its code is not part of the notebook.
  A result is taken to be the record of the four keyword arguments that \<^verbatim>\<open>calculate\<close>
  passes to the constructor.
\<close>

record 'a GenericEvaluatorResults =
  score :: 'a
  label :: string
  score_format :: string
  is_max_better :: bool

definition reset :: "'a evaluator \<Rightarrow> 'a evaluator" where
  "reset s = s\<lparr>outputs := [], targets := []\<rparr>"

text \<open>
  \<^verbatim>\<open>__init__\<close> stores the two keys and then calls \<^verbatim>\<open>reset\<close>, which creates the two
  lists. The default arguments are \<open>None\<close> and \<open>''target''\<close>, so the evaluator
  built without arguments is \<open>init None ''target''\<close>.
\<close>

definition init :: "string option \<Rightarrow> string \<Rightarrow> 'a evaluator" where
  "init mk bk =
     reset \<lparr>model_output_key = mk, batch_target_key = bk, outputs = [], targets = []\<rparr>"

text \<open>
  The first statement of \<^verbatim>\<open>step\<close>: with no key the output is used as it is; with a key
  the output is subscripted. Subscripting a dictionary with a missing key raises
  \<^verbatim>\<open>KeyError\<close>, subscripting a tensor with a string raises \<^verbatim>\<open>IndexError\<close>. A dictionary
  that is used without a key has no \<^verbatim>\<open>tolist\<close> attribute.
\<close>

fun select_output :: "string option \<Rightarrow> 'a model_output \<Rightarrow> error + 'a tensor" where
  "select_output None (Plain t) = Inr t"
| "select_output None (Keyed m) = Inl (AttributeError ''tolist'')"
| "select_output (Some k) (Keyed m) =
     (case m k of None \<Rightarrow> Inl (KeyError k) | Some t \<Rightarrow> Inr t)"
| "select_output (Some k) (Plain t) = Inl (IndexError ''invalid index'')"

definition batch_lookup :: "(string \<rightharpoonup> 'a tensor) \<Rightarrow> string \<Rightarrow> error + 'a tensor" where
  "batch_lookup batch k = (case batch k of None \<Rightarrow> Inl (KeyError k) | Some t \<Rightarrow> Inr t)"

text \<open>
  \<^verbatim>\<open>step(output, batch, last_activation=None)\<close>; the third argument is never read and is
  left out. The method mutates the evaluator and may raise half way: the result is the
  evaluator as the call leaves it, together with the exception if one escaped. The
  outputs are extended before the batch is looked at, so a failure on the target side
  leaves the new outputs in place.
\<close>

definition step ::
  "'a model_output \<Rightarrow> (string \<rightharpoonup> 'a tensor) \<Rightarrow> 'a evaluator \<Rightarrow> 'a evaluator \<times> error option"
where
  "step output batch s =
     (case select_output (model_output_key s) output of
        Inl e \<Rightarrow> (s, Some e)
      | Inr out \<Rightarrow>
          (case list_extend (outputs s) (tolist out) of
             Inl e \<Rightarrow> (s, Some e)
           | Inr os \<Rightarrow>
               let s1 = s\<lparr>outputs := os\<rparr> in
               (case batch_lookup batch (batch_target_key s1) of
                  Inl e \<Rightarrow> (s1, Some e)
                | Inr tgt \<Rightarrow>
                    (case list_extend (targets s1) (tolist tgt) of
                       Inl e \<Rightarrow> (s1, Some e)
                     | Inr ts \<Rightarrow> (s1\<lparr>targets := ts\<rparr>, None)))))"

text \<open>
  The caller (the wrapper's evaluation loop) calls \<^verbatim>\<open>step\<close> once per batch; an
  exception ends the loop.
\<close>

fun run_steps ::
  "'a evaluator \<Rightarrow> ('a model_output \<times> (string \<rightharpoonup> 'a tensor)) list
     \<Rightarrow> 'a evaluator \<times> error option"
where
  "run_steps s [] = (s, None)"
| "run_steps s ((output, batch) # calls) =
     (case step output batch s of
        (s', Some e) \<Rightarrow> (s', Some e)
      | (s', None) \<Rightarrow> run_steps s' calls)"

text \<open>
  \<^verbatim>\<open>np.array(outputs) - np.array(targets)\<close> on two one-dimensional arrays: equal lengths
  subtract element by element; an array of length one is broadcast against the other;
  any other pair of lengths raises \<^verbatim>\<open>ValueError\<close>.
\<close>

definition np_subtract :: "'a::minus list \<Rightarrow> 'a list \<Rightarrow> error + 'a list" where
  "np_subtract xs ys =
     (if length xs = length ys then Inr (map2 (\<lambda>x y. x - y) xs ys)
      else if length xs = 1 then Inr (map (\<lambda>y. hd xs - y) ys)
      else if length ys = 1 then Inr (map (\<lambda>x. x - hd ys) xs)
      else Inl (ValueError ''operands could not be broadcast together''))"

definition np_abs :: "'a::abs list \<Rightarrow> 'a list" where
  "np_abs xs = map abs xs"

definition np_sum :: "'a::monoid_add list \<Rightarrow> 'a" where
  "np_sum xs = sum_list xs"

definition calculate ::
  "'a::{monoid_add,minus,abs} evaluator \<Rightarrow> error + 'a GenericEvaluatorResults"
where
  "calculate s =
     (case np_subtract (outputs s) (targets s) of
        Inl e \<Rightarrow> Inl e
      | Inr d \<Rightarrow>
          let mean_distance = np_sum (np_abs d) in
          Inr \<lparr>score = mean_distance, label = ''manh-dist'',
               score_format = ''%f'', is_max_better = False\<rparr>)"

section \<open>TwoSpiralDataset\<close>

text \<open>
  \<^verbatim>\<open>str.split(sep)\<close> with an explicit one-character separator: the text is cut at every
  occurrence, so \<open>k\<close> separators give \<open>k + 1\<close> pieces, some possibly empty; the empty
  string gives one empty piece.
\<close>

fun str_split :: "char \<Rightarrow> string \<Rightarrow> string list" where
  "str_split sep [] = [[]]"
| "str_split sep (c # cs) =
     (if c = sep then [] # str_split sep cs
      else (case str_split sep cs of
              [] \<Rightarrow> [[c]]
            | w # ws \<Rightarrow> (c # w) # ws))"

definition newline :: char where
  "newline = CHR 0x0A"

definition tab :: char where
  "tab = CHR 0x09"

text \<open>The slice \<^verbatim>\<open>xs[1:-1]\<close>: everything before the last element, without the first.\<close>

definition slice_1_to_last :: "'x list \<Rightarrow> 'x list" where
  "slice_1_to_last xs = drop 1 (take (length xs - 1) xs)"

definition parsed_lines :: "string \<Rightarrow> string list" where
  "parsed_lines text = slice_1_to_last (str_split newline text)"

text \<open>
  The body of the loop. \<^verbatim>\<open>float\<close> is Python's built-in conversion; it is a parameter
  \<open>pyfloat\<close> that returns the number or the exception it raises. The unpacking of the
  split line into three names raises \<^verbatim>\<open>ValueError\<close> unless there are exactly three
  pieces. The conversions run in the order x, y, label.
\<close>

definition parse_line ::
  "(string \<Rightarrow> error + 'a) \<Rightarrow> string \<Rightarrow> error + ('a \<times> 'a \<times> 'a)"
where
  "parse_line pyfloat line =
     (case str_split tab line of
        [pos_x, pos_y, cur_target] \<Rightarrow>
          (case pyfloat pos_x of
             Inl e \<Rightarrow> Inl e
           | Inr x \<Rightarrow>
               (case pyfloat pos_y of
                  Inl e \<Rightarrow> Inl e
                | Inr y \<Rightarrow>
                    (case pyfloat cur_target of
                       Inl e \<Rightarrow> Inl e
                     | Inr t \<Rightarrow> Inr (x, y, t))))
      | pieces \<Rightarrow>
          (if length pieces < 3 then Inl (ValueError ''not enough values to unpack'')
           else Inl (ValueError ''too many values to unpack'')))"

text \<open>The loop itself, with the two growing lists as accumulators.\<close>

fun parse_loop ::
  "(string \<Rightarrow> error + 'a) \<Rightarrow> string list \<Rightarrow> 'a list list \<Rightarrow> 'a list
     \<Rightarrow> error + ('a list list \<times> 'a list)"
where
  "parse_loop pyfloat [] ps ts = Inr (ps, ts)"
| "parse_loop pyfloat (line # rest) ps ts =
     (case parse_line pyfloat line of
        Inl e \<Rightarrow> Inl e
      | Inr (x, y, t) \<Rightarrow> parse_loop pyfloat rest (ps @ [[x, y]]) (ts @ [t]))"

record 'b TwoSpiralDataset =
  pos :: "'b list list"
  target :: "'b list"

definition two_spiral_url :: string where
  "two_spiral_url =
     ''https://raw.githubusercontent.com/jkoutsikakis/datasets/master/two_spiral_dataset/two_spiral_dataset.tsv''"

text \<open>
  The constructor. \<open>requests_get\<close> is the network: for a URL it gives the text of the
  response or the exception raised by the request. \<open>float32\<close> is the conversion done by
  \<^verbatim>\<open>np.array(..., dtype='float32')\<close> on every entry.
\<close>

definition TwoSpiralDataset_init ::
  "(string \<Rightarrow> error + string) \<Rightarrow> (string \<Rightarrow> error + 'a) \<Rightarrow> ('a \<Rightarrow> 'b)
     \<Rightarrow> error + 'b TwoSpiralDataset"
where
  "TwoSpiralDataset_init requests_get pyfloat float32 =
     (case requests_get two_spiral_url of
        Inl e \<Rightarrow> Inl e
      | Inr text \<Rightarrow>
          (case parse_loop pyfloat (parsed_lines text) [] [] of
             Inl e \<Rightarrow> Inl e
           | Inr (ps, ts) \<Rightarrow>
               Inr \<lparr>pos = map (map float32) ps, target = map float32 ts\<rparr>))"

text \<open>
  Indexing an array along its first axis with an integer: a negative index counts from
  the end, an index outside \<open>[-n, n)\<close> raises \<^verbatim>\<open>IndexError\<close>.
\<close>

definition np_index :: "'x list \<Rightarrow> int \<Rightarrow> error + 'x" where
  "np_index xs i =
     (if 0 \<le> i \<and> i < int (length xs) then Inr (xs ! nat i)
      else if i < 0 \<and> - int (length xs) \<le> i then Inr (xs ! nat (int (length xs) + i))
      else Inl (IndexError ''index is out of bounds for axis 0''))"

text \<open>The values of an example dictionary: a row of the position array or one label.\<close>

datatype 'b array_value = Row "'b list" | Scalar 'b

definition getitem ::
  "'b TwoSpiralDataset \<Rightarrow> int \<Rightarrow> error + (string \<rightharpoonup> 'b array_value)"
where
  "getitem d item_index =
     (case np_index (pos d) item_index of
        Inl e \<Rightarrow> Inl e
      | Inr row \<Rightarrow>
          (case np_index (target d) item_index of
             Inl e \<Rightarrow> Inl e
           | Inr t \<Rightarrow> Inr [''input'' \<mapsto> Row row, ''target'' \<mapsto> Scalar t]))"

definition len :: "'b TwoSpiralDataset \<Rightarrow> nat" where
  "len d = length (target d)"

text \<open>
  The two methods as calls on the object: each returns its result together with the
  object as the call leaves it. Neither method assigns to an attribute.
\<close>

datatype dataset_call = GetItem int | Len

datatype 'b call_result = Item "error + (string \<rightharpoonup> 'b array_value)" | Length nat

fun call_method ::
  "dataset_call \<Rightarrow> 'b TwoSpiralDataset \<Rightarrow> 'b TwoSpiralDataset \<times> 'b call_result"
where
  "call_method (GetItem i) d = (d, Item (getitem d i))"
| "call_method Len d = (d, Length (len d))"

fun call_methods :: "dataset_call list \<Rightarrow> 'b TwoSpiralDataset \<Rightarrow> 'b TwoSpiralDataset" where
  "call_methods [] d = d"
| "call_methods (c # cs) d = call_methods cs (fst (call_method c d))"

text \<open>
  The lines of a text in the everyday sense: the pieces between newlines, where a final
  newline ends the last line rather than starting an empty one.
\<close>

definition text_lines :: "string \<Rightarrow> string list" where
  "text_lines text =
     (let pieces = str_split newline text
      in if last pieces = [] then butlast pieces else pieces)"

text \<open>
  A conversion for concrete runs: a non-empty string of ASCII digits denotes its decimal
  value, as it does for Python's \<^verbatim>\<open>float\<close>. Other strings are rejected here, which is
  narrower than Python; the function is only applied to digit strings.
\<close>

definition digit_value :: "char \<Rightarrow> nat option" where
  "digit_value c = map_of (zip ''0123456789'' [0, 1, 2, 3, 4, 5, 6, 7, 8, 9]) c"

fun digits_value :: "nat \<Rightarrow> string \<Rightarrow> nat option" where
  "digits_value acc [] = Some acc"
| "digits_value acc (c # cs) =
     (case digit_value c of None \<Rightarrow> None | Some v \<Rightarrow> digits_value (10 * acc + v) cs)"

definition float_of_digits :: "string \<Rightarrow> error + int" where
  "float_of_digits s =
     (if s = [] then Inl (ValueError s)
      else (case digits_value 0 s of
              None \<Rightarrow> Inl (ValueError s)
            | Some n \<Rightarrow> Inr (int n)))"

section \<open>Model\<close>

text \<open>
  Modelled from the spec: \<^verbatim>\<open>pw.modules.MLP\<close> is the wrapper library's module and its
  code is not part of the notebooks. The spec describes it as a fixed stack of linear
  layers that takes each example of \<open>input_size\<close> features to \<open>output_size\<close> values.
  Only shapes are modelled: a batch of \<open>b\<close> examples has shape \<open>[b, input_size]\<close>; every
  linear layer replaces the feature dimension by its own width. A shape that is not a
  batch of examples of the right width is outside what the spec describes (\<open>None\<close>).
\<close>

record MLP_config =
  input_size :: nat
  num_hidden_layers :: nat
  hidden_layer_size :: nat
  output_size :: nat

definition layer_widths :: "MLP_config \<Rightarrow> nat list" where
  "layer_widths cfg =
     replicate (num_hidden_layers cfg) (hidden_layer_size cfg) @ [output_size cfg]"

fun linear_stack :: "nat list \<Rightarrow> nat list \<Rightarrow> nat list" where
  "linear_stack [] shape = shape"
| "linear_stack (w # ws) shape = linear_stack ws (butlast shape @ [w])"

definition MLP_shape :: "MLP_config \<Rightarrow> nat list \<Rightarrow> nat list option" where
  "MLP_shape cfg shape =
     (case shape of
        [b, n] \<Rightarrow> if n = input_size cfg then Some (linear_stack (layer_widths cfg) shape)
                  else None
      | _ \<Rightarrow> None)"

text \<open>The configuration written in \<^verbatim>\<open>Model.__init__\<close>.\<close>

definition Model_mlp :: MLP_config where
  "Model_mlp = \<lparr>input_size = 2, num_hidden_layers = 3, hidden_layer_size = 128,
                output_size = 1\<rparr>"

text \<open>\<^verbatim>\<open>squeeze()\<close> removes every dimension of size one.\<close>

definition squeeze :: "nat list \<Rightarrow> nat list" where
  "squeeze shape = filter (\<lambda>n. n \<noteq> 1) shape"

definition forward_shape :: "nat list \<Rightarrow> nat list option" where
  "forward_shape x = map_option squeeze (MLP_shape Model_mlp x)"

text \<open>The number of scalar entries of a tensor of a given shape.\<close>

definition numel :: "nat list \<Rightarrow> nat" where
  "numel shape = prod_list shape"

section \<open>Inputs used to state and instantiate the properties\<close>

text \<open>
  A call of \<^verbatim>\<open>step\<close> delivers the batch \<open>(os, ts)\<close> under the keys \<open>mk\<close> and \<open>bk\<close> when the
  selected output is the one-dimensional tensor \<open>os\<close> and the batch dictionary holds the
  one-dimensional tensor \<open>ts\<close> at the target key.
\<close>

definition delivers ::
  "string option \<Rightarrow> string \<Rightarrow> 'a model_output \<times> (string \<rightharpoonup> 'a tensor) \<Rightarrow> 'a list \<times> 'a list \<Rightarrow> bool"
where
  "delivers mk bk call b =
     (select_output mk (fst call) = Inr (Tensor1 (fst b)) \<and> snd call bk = Some (Tensor1 (snd b)))"

text \<open>Concrete evaluator inputs: two batches, the same pairs as one batch, a filled state.\<close>

definition example_calls :: "(int model_output \<times> (string \<rightharpoonup> int tensor)) list" where
  "example_calls =
     [(Plain (Tensor1 [1, 2]), [''target'' \<mapsto> Tensor1 [3, 5]]),
      (Plain (Tensor1 [4]), [''target'' \<mapsto> Tensor1 [1]])]"

definition example_batches :: "(int list \<times> int list) list" where
  "example_batches = [([1, 2], [3, 5]), ([4], [1])]"

definition example_single_call :: "(int model_output \<times> (string \<rightharpoonup> int tensor)) list" where
  "example_single_call = [(Plain (Tensor1 [1, 2, 4]), [''target'' \<mapsto> Tensor1 [3, 5, 1]])]"

definition example_single_batch :: "(int list \<times> int list) list" where
  "example_single_batch = [([1, 2, 4], [3, 5, 1])]"

definition example_state :: "int evaluator" where
  "example_state = \<lparr>model_output_key = None, batch_target_key = ''target'',
                     outputs = [1, 2], targets = [3, 5]\<rparr>"

text \<open>
  A field is convertible when \<^verbatim>\<open>float\<close> returns a number for it. A line is well formed when
  it splits at tabs into exactly three convertible fields. A stored record comes from a
  line when the line parses to \<open>(x, y, t)\<close> and the record is the row \<open>[x, y]\<close> with the
  label \<open>t\<close>, both converted to \<^verbatim>\<open>float32\<close>.
\<close>

definition convertible :: "(string \<Rightarrow> error + 'a) \<Rightarrow> string \<Rightarrow> bool" where
  "convertible pyfloat s = (case pyfloat s of Inl e \<Rightarrow> False | Inr x \<Rightarrow> True)"

definition well_formed_line :: "(string \<Rightarrow> error + 'a) \<Rightarrow> string \<Rightarrow> bool" where
  "well_formed_line pyfloat line =
     (case str_split tab line of
        [a, b, c] \<Rightarrow> convertible pyfloat a \<and> convertible pyfloat b \<and> convertible pyfloat c
      | _ \<Rightarrow> False)"

definition stored_from ::
  "(string \<Rightarrow> error + 'a) \<Rightarrow> ('a \<Rightarrow> 'b) \<Rightarrow> string \<Rightarrow> 'b list \<times> 'b \<Rightarrow> bool"
where
  "stored_from pyfloat float32 line r =
     (case parse_line pyfloat line of
        Inl e \<Rightarrow> False
      | Inr (x, y, t) \<Rightarrow> r = ([float32 x, float32 y], float32 t))"

text \<open>
  Two networks for concrete runs: one answers every request with a given text, the other
  raises on every request.
\<close>

definition serve :: "string \<Rightarrow> string \<Rightarrow> error + string" where
  "serve body url = Inr body"

definition refuse :: "string \<Rightarrow> string \<Rightarrow> error + string" where
  "refuse message url = Inl (RequestException message)"

text \<open>
  Concrete files: a header and two data lines; two data lines without a header; a header
  and a line with two fields only. \<open>example_dataset\<close> is what the first one loads to.
\<close>

definition example_tsv :: string where
  "example_tsv =
     ''x'' @ [tab] @ ''y'' @ [tab] @ ''label'' @ [newline] @
     ''1'' @ [tab] @ ''2'' @ [tab] @ ''0'' @ [newline] @
     ''3'' @ [tab] @ ''4'' @ [tab] @ ''1'' @ [newline]"

definition example_dataset :: "int TwoSpiralDataset" where
  "example_dataset = \<lparr>pos = [[1, 2], [3, 4]], target = [0, 1]\<rparr>"

definition headerless_tsv :: string where
  "headerless_tsv =
     ''1'' @ [tab] @ ''2'' @ [tab] @ ''0'' @ [newline] @
     ''3'' @ [tab] @ ''4'' @ [tab] @ ''1'' @ [newline]"

definition short_line_tsv :: string where
  "short_line_tsv =
     ''x'' @ [tab] @ ''y'' @ [tab] @ ''label'' @ [newline] @
     ''1'' @ [tab] @ ''2'' @ [newline]"

section \<open>Properties of the evaluator\<close>

lemma step_keys:
  "model_output_key (fst (step output batch s)) = model_output_key s \<and>
   batch_target_key (fst (step output batch s)) = batch_target_key s"
  by (simp add: step_def Let_def split: sum.splits)

lemma run_steps_keys:
  "model_output_key (fst (run_steps s calls)) = model_output_key s \<and>
   batch_target_key (fst (run_steps s calls)) = batch_target_key s"
proof (induction calls arbitrary: s)
  case Nil
  show ?case by simp
next
  case (Cons c calls)
  obtain out batch where c: "c = (out, batch)" by (cases c)
  obtain s' r where st: "step out batch s = (s', r)" by (cases "step out batch s")
  have k: "model_output_key s' = model_output_key s \<and> batch_target_key s' = batch_target_key s"
    using step_keys [of out batch s] st by simp
  show ?case
  proof (cases r)
    case None
    then show ?thesis using Cons.IH [of s'] k c st by simp
  next
    case (Some e)
    then show ?thesis using k c st by simp
  qed
qed

lemma step_delivers:
  assumes "delivers (model_output_key s) (batch_target_key s) (output, batch) (os, ts)"
  shows "step output batch s = (s\<lparr>outputs := outputs s @ os, targets := targets s @ ts\<rparr>, None)"
  using assms by (simp add: delivers_def step_def batch_lookup_def Let_def)

lemma run_steps_delivers_keys:
  assumes "list_all2 (delivers mk bk) calls bs"
  shows "model_output_key s = mk \<Longrightarrow> batch_target_key s = bk \<Longrightarrow>
         run_steps s calls =
           (s\<lparr>outputs := outputs s @ concat (map fst bs),
              targets := targets s @ concat (map snd bs)\<rparr>, None)"
  using assms
proof (induction calls bs arbitrary: s rule: list_all2_induct)
  case Nil
  show ?case by simp
next
  case (Cons c calls b bs)
  obtain out batch where c: "c = (out, batch)" by (cases c)
  obtain os ts where b: "b = (os, ts)" by (cases b)
  let ?s' = "s\<lparr>outputs := outputs s @ os, targets := targets s @ ts\<rparr>"
  have "delivers (model_output_key s) (batch_target_key s) (out, batch) (os, ts)"
    using Cons.hyps(1) Cons.prems c b by simp
  then have st: "step out batch s = (?s', None)"
    by (rule step_delivers)
  have "run_steps ?s' calls =
      (?s'\<lparr>outputs := outputs ?s' @ concat (map fst bs),
           targets := targets ?s' @ concat (map snd bs)\<rparr>, None)"
    using Cons.prems by (intro Cons.IH) simp_all
  then show ?case using st c b by simp
qed

lemma run_steps_delivers:
  assumes "list_all2 (delivers (model_output_key s) (batch_target_key s)) calls bs"
  shows "run_steps s calls =
           (s\<lparr>outputs := outputs s @ concat (map fst bs),
              targets := targets s @ concat (map snd bs)\<rparr>, None)"
  using run_steps_delivers_keys [OF assms] by simp

lemma zip_concat_batches:
  assumes "\<forall>(os, ts) \<in> set bs. length os = length ts"
  shows "zip (concat (map fst bs)) (concat (map snd bs)) = concat (map (\<lambda>(os, ts). zip os ts) bs)"
  using assms by (induction bs) (auto simp: zip_append)

lemma np_subtract_same_length:
  "length xs = length ys \<Longrightarrow> np_subtract xs ys = Inr (map (\<lambda>(x, y). x - y) (zip xs ys))"
  by (simp add: np_subtract_def)

lemma calculate_same_length:
  fixes s :: "'a::{monoid_add,minus,abs} evaluator"
  assumes "length (outputs s) = length (targets s)"
  shows "calculate s =
    Inr \<lparr>score = (\<Sum>(x, y) \<leftarrow> zip (outputs s) (targets s). \<bar>x - y\<bar>), label = ''manh-dist'',
         score_format = ''%f'', is_max_better = False\<rparr>"
proof -
  have "abs \<circ> (\<lambda>(x, y). x - y) = (\<lambda>(x::'a, y). \<bar>x - y\<bar>)"
    by (auto simp: fun_eq_iff)
  then show ?thesis
    using assms by (simp add: calculate_def np_subtract_same_length np_abs_def np_sum_def)
qed

text \<open>
  C1: when every call of \<^verbatim>\<open>step\<close> on a fresh evaluator delivers a batch of outputs and a
  batch of targets of the same length, no call fails and \<^verbatim>\<open>calculate\<close> returns a result
  whose score is the sum, over all recorded pairs in call order, of \<open>\<bar>output - target\<bar>\<close>.
  It is the sum itself: nothing divides by the number of pairs.
\<close>

theorem calculate_is_sum_of_absolute_differences:
  fixes bs :: "('a::{monoid_add,minus,abs} list \<times> 'a list) list"
  assumes "list_all2 (delivers mk bk) calls bs"
    and "list_all (\<lambda>(os, ts). length os = length ts) bs"
  shows "snd (run_steps (init mk bk) calls) = None \<and>
         calculate (fst (run_steps (init mk bk) calls)) =
           Inr \<lparr>score = (\<Sum>(x, y) \<leftarrow> concat (map (\<lambda>(os, ts). zip os ts) bs). \<bar>x - y\<bar>),
                label = ''manh-dist'', score_format = ''%f'', is_max_better = False\<rparr>"
proof -
  let ?s0 = "init mk bk :: 'a evaluator"
  have keys: "model_output_key ?s0 = mk" "batch_target_key ?s0 = bk"
    and empty: "outputs ?s0 = []" "targets ?s0 = []"
    by (simp_all add: init_def reset_def)
  have run: "run_steps ?s0 calls =
      (?s0\<lparr>outputs := concat (map fst bs), targets := concat (map snd bs)\<rparr>, None)"
    using run_steps_delivers [of ?s0 calls bs] assms(1) keys empty by simp
  have same: "\<forall>(os, ts) \<in> set bs. length os = length ts"
    using assms(2) by (simp add: list_all_iff)
  have len: "length (concat (map fst bs)) = length (concat (map snd bs))"
    using same by (induction bs) auto
  show ?thesis
    using run len calculate_same_length [of "?s0\<lparr>outputs := concat (map fst bs), targets := concat (map snd bs)\<rparr>"]
      zip_concat_batches [OF same]
    by simp
qed

theorem calculate_is_sum_of_absolute_differences_witness:
  "list_all2 (delivers None ''target'') example_calls example_batches \<and>
   list_all (\<lambda>(os, ts). length os = length ts) example_batches \<and>
   calculate (fst (run_steps (init None ''target'') example_calls)) =
     Inr \<lparr>score = 8, label = ''manh-dist'', score_format = ''%f'', is_max_better = False\<rparr>"
proof -
  have h1: "list_all2 (delivers None ''target'') example_calls example_batches"
    by (simp add: delivers_def example_calls_def example_batches_def)
  have h2: "list_all (\<lambda>(os, ts). length os = length ts) example_batches"
    by (simp add: example_batches_def)
  have "calculate (fst (run_steps (init None ''target'') example_calls)) =
      Inr \<lparr>score = (\<Sum>(x, y) \<leftarrow> concat (map (\<lambda>(os, ts). zip os ts) example_batches). \<bar>x - y\<bar>),
           label = ''manh-dist'', score_format = ''%f'', is_max_better = False\<rparr>"
    using calculate_is_sum_of_absolute_differences [OF h1 h2] by (rule conjunct2)
  moreover have "(\<Sum>(x, y) \<leftarrow> concat (map (\<lambda>(os, ts). zip os ts) example_batches). \<bar>x - y\<bar>) = 8"
    by (simp add: example_batches_def)
  ultimately have "calculate (fst (run_steps (init None ''target'') example_calls)) =
      Inr \<lparr>score = 8, label = ''manh-dist'', score_format = ''%f'', is_max_better = False\<rparr>"
    by simp
  with h1 h2 show ?thesis by (intro conjI)
qed

text \<open>
  C8: two sequences of \<^verbatim>\<open>step\<close> calls whose delivered outputs have the same concatenation
  and whose delivered targets have the same concatenation leave the evaluator in the same
  state, and \<^verbatim>\<open>calculate\<close> gives the same result (score or exception) after either. A
  single call with all pairs is one such regrouping.
\<close>

theorem calculate_depends_on_concatenation:
  fixes s :: "'a::{monoid_add,minus,abs} evaluator"
  assumes "list_all2 (delivers (model_output_key s) (batch_target_key s)) calls bs"
    and "list_all2 (delivers (model_output_key s) (batch_target_key s)) calls' bs'"
    and "concat (map fst bs) = concat (map fst bs')"
    and "concat (map snd bs) = concat (map snd bs')"
  shows "run_steps s calls = run_steps s calls' \<and>
         snd (run_steps s calls) = None \<and>
         calculate (fst (run_steps s calls)) = calculate (fst (run_steps s calls'))"
  using run_steps_delivers [OF assms(1)] run_steps_delivers [OF assms(2)] assms(3,4)
  by simp

theorem calculate_depends_on_concatenation_witness:
  "list_all2 (delivers None ''target'') example_calls example_batches \<and>
   list_all2 (delivers None ''target'') example_single_call example_single_batch \<and>
   concat (map fst example_batches) = concat (map fst example_single_batch) \<and>
   concat (map snd example_batches) = concat (map snd example_single_batch) \<and>
   calculate (fst (run_steps (init None ''target'') example_calls)) =
   calculate (fst (run_steps (init None ''target'') example_single_call))"
proof -
  let ?s = "init None ''target'' :: int evaluator"
  have k: "model_output_key ?s = None" "batch_target_key ?s = ''target''"
    by (simp_all add: init_def reset_def)
  have h1: "list_all2 (delivers None ''target'') example_calls example_batches"
    by (simp add: delivers_def example_calls_def example_batches_def)
  have h2: "list_all2 (delivers None ''target'') example_single_call example_single_batch"
    by (simp add: delivers_def example_single_call_def example_single_batch_def)
  have h3: "concat (map fst example_batches) = concat (map fst example_single_batch)"
    by (simp add: example_batches_def example_single_batch_def)
  have h4: "concat (map snd example_batches) = concat (map snd example_single_batch)"
    by (simp add: example_batches_def example_single_batch_def)
  note inst = calculate_depends_on_concatenation [of ?s example_calls example_batches
        example_single_call example_single_batch, unfolded k, OF h1 h2 h3 h4]
  have "calculate (fst (run_steps ?s example_calls)) =
        calculate (fst (run_steps ?s example_single_call))"
    using inst by (elim conjE)
  with h1 h2 h3 h4 show ?thesis by (intro conjI)
qed

text \<open>
  C9: \<^verbatim>\<open>reset\<close> after any sequence of \<^verbatim>\<open>step\<close> calls (failed ones included) gives back the
  state \<^verbatim>\<open>__init__\<close> built; in any state it empties both lists, is idempotent and leaves
  the two keys as they were.
\<close>

theorem reset_restores_fresh_state:
  fixes s :: "'a evaluator"
  shows
  "reset (fst (run_steps (init mk bk :: 'a evaluator) calls)) = init mk bk \<and>
   reset s = init (model_output_key s) (batch_target_key s) \<and>
   outputs (reset s) = [] \<and> targets (reset s) = [] \<and>
   reset (reset s) = reset s \<and>
   model_output_key (reset s) = model_output_key s \<and>
   batch_target_key (reset s) = batch_target_key s"
proof -
  have fresh: "reset t = init (model_output_key t) (batch_target_key t)" for t :: "'a evaluator"
    by (simp add: reset_def init_def)
  let ?s0 = "init mk bk :: 'a evaluator"
  have "model_output_key (fst (run_steps ?s0 calls)) = mk"
    and "batch_target_key (fst (run_steps ?s0 calls)) = bk"
    using run_steps_keys [of ?s0 calls] by (simp_all add: init_def reset_def)
  then have a: "reset (fst (run_steps ?s0 calls)) = ?s0"
    using fresh [of "fst (run_steps ?s0 calls)"] by simp
  have b: "outputs (reset s) = []" "targets (reset s) = []" "reset (reset s) = reset s"
    "model_output_key (reset s) = model_output_key s"
    "batch_target_key (reset s) = batch_target_key s"
    by (simp_all add: reset_def)
  from a fresh [of s] b show ?thesis by (intro conjI)
qed

text \<open>
  C10: \<^verbatim>\<open>calculate\<close> on a freshly built or freshly reset evaluator returns a result with
  score 0, label \<open>manh-dist\<close>, format \<open>%f\<close> and \<open>is_max_better = False\<close>; whatever the state,
  a result that \<^verbatim>\<open>calculate\<close> returns carries that label and \<open>is_max_better = False\<close>.
\<close>

theorem calculate_on_fresh_evaluator:
  fixes s :: "'a::{monoid_add,minus,abs} evaluator"
  shows
  "calculate (init mk bk :: 'a evaluator) =
     Inr \<lparr>score = 0, label = ''manh-dist'', score_format = ''%f'', is_max_better = False\<rparr> \<and>
   calculate (reset s) =
     Inr \<lparr>score = 0, label = ''manh-dist'', score_format = ''%f'', is_max_better = False\<rparr> \<and>
   (calculate s = Inr r \<longrightarrow> label r = ''manh-dist'' \<and> \<not> is_max_better r)"
proof (intro conjI impI)
  show "calculate (init mk bk :: 'a evaluator) =
     Inr \<lparr>score = 0, label = ''manh-dist'', score_format = ''%f'', is_max_better = False\<rparr>"
    by (simp add: calculate_def init_def reset_def np_subtract_def np_abs_def np_sum_def)
  show "calculate (reset s) =
     Inr \<lparr>score = 0, label = ''manh-dist'', score_format = ''%f'', is_max_better = False\<rparr>"
    by (simp add: calculate_def reset_def np_subtract_def np_abs_def np_sum_def)
next
  assume r: "calculate s = Inr r"
  then show "label r = ''manh-dist''"
    by (auto simp: calculate_def Let_def split: sum.splits)
  from r show "\<not> is_max_better r"
    by (auto simp: calculate_def Let_def split: sum.splits)
qed

theorem calculate_on_fresh_evaluator_witness:
  "calculate example_state =
     Inr \<lparr>score = 5, label = ''manh-dist'', score_format = ''%f'', is_max_better = False\<rparr> \<and>
   calculate (reset example_state) =
     Inr \<lparr>score = 0, label = ''manh-dist'', score_format = ''%f'', is_max_better = False\<rparr> \<and>
   label \<lparr>score = 5::int, label = ''manh-dist'', score_format = ''%f'', is_max_better = False\<rparr>
     = ''manh-dist''"
proof -
  let ?r = "\<lparr>score = 5::int, label = ''manh-dist'', score_format = ''%f'', is_max_better = False\<rparr>"
  have h: "calculate example_state = Inr ?r"
    by (simp add: example_state_def calculate_def np_subtract_def np_abs_def np_sum_def)
  note inst = calculate_on_fresh_evaluator [of None "''target''" example_state ?r]
  have b: "calculate (reset example_state) =
     Inr \<lparr>score = 0, label = ''manh-dist'', score_format = ''%f'', is_max_better = False\<rparr>"
    using inst by (elim conjE)
  have "calculate example_state = Inr ?r \<longrightarrow> label ?r = ''manh-dist'' \<and> \<not> is_max_better ?r"
    using inst by (elim conjE)
  then have "label ?r = ''manh-dist''" using h by (elim impE conjE)
  with h b show ?thesis by (intro conjI)
qed

section \<open>Properties of the dataset\<close>

lemma parse_line_ok_iff:
  "(\<exists>tr. parse_line pf l = Inr tr) \<longleftrightarrow> well_formed_line pf l"
  by (auto simp: parse_line_def well_formed_line_def convertible_def
      split: list.splits sum.splits)

lemma parse_loop_ok:
  "parse_loop pf lines ps ts = Inr (ps', ts') \<Longrightarrow>
   \<exists>trs. list_all2 (\<lambda>l tr. parse_line pf l = Inr tr) lines trs \<and>
         ps' = ps @ map (\<lambda>(x, y, t). [x, y]) trs \<and>
         ts' = ts @ map (\<lambda>(x, y, t). t) trs"
proof (induction lines arbitrary: ps ts)
  case Nil
  then show ?case by simp
next
  case (Cons l lines)
  from Cons.prems obtain x y t where
    pl: "parse_line pf l = Inr (x, y, t)"
    and rest: "parse_loop pf lines (ps @ [[x, y]]) (ts @ [t]) = Inr (ps', ts')"
    by (auto split: sum.splits)
  from Cons.IH [OF rest] obtain trs where
    trs: "list_all2 (\<lambda>l tr. parse_line pf l = Inr tr) lines trs"
      "ps' = (ps @ [[x, y]]) @ map (\<lambda>(x, y, t). [x, y]) trs"
      "ts' = (ts @ [t]) @ map (\<lambda>(x, y, t). t) trs"
    by blast
  show ?case
    by (rule exI [of _ "(x, y, t) # trs"]) (use pl trs in simp)
qed

lemma parse_loop_succeeds:
  "list_all (well_formed_line pf) lines \<Longrightarrow> \<exists>r. parse_loop pf lines ps ts = Inr r"
proof (induction lines arbitrary: ps ts)
  case Nil
  show ?case by simp
next
  case (Cons l lines)
  from Cons.prems have "well_formed_line pf l" and rest: "list_all (well_formed_line pf) lines"
    by simp_all
  then obtain x y t where pl: "parse_line pf l = Inr (x, y, t)"
    using parse_line_ok_iff [of pf l] by auto
  show ?case using pl Cons.IH [OF rest] by simp
qed

lemma parse_loop_fails:
  "parse_loop pf lines ps ts = Inl e \<Longrightarrow>
   \<exists>pre l post. lines = pre @ l # post \<and> list_all (well_formed_line pf) pre \<and>
     parse_line pf l = Inl e"
proof (induction lines arbitrary: ps ts)
  case Nil
  then show ?case by simp
next
  case (Cons l lines)
  show ?case
  proof (cases "parse_line pf l")
    case (Inl e')
    with Cons.prems have "e' = e" by simp
    with Inl have "l # lines = [] @ l # lines \<and> list_all (well_formed_line pf) [] \<and>
        parse_line pf l = Inl e" by simp
    then show ?thesis by blast
  next
    case (Inr tr)
    obtain x y t where tr: "tr = (x, y, t)" by (cases tr)
    from Inr tr Cons.prems
    have "parse_loop pf lines (ps @ [[x, y]]) (ts @ [t]) = Inl e" by simp
    from Cons.IH [OF this] obtain pre l' post where
      p: "lines = pre @ l' # post" "list_all (well_formed_line pf) pre" "parse_line pf l' = Inl e"
      by blast
    have "well_formed_line pf l" using Inr parse_line_ok_iff [of pf l] by blast
    with p have "l # lines = (l # pre) @ l' # post \<and> list_all (well_formed_line pf) (l # pre) \<and>
        parse_line pf l' = Inl e" by simp
    then show ?thesis by blast
  qed
qed

lemma parse_loop_failing_line:
  "lines = pre @ l # post \<Longrightarrow> list_all (well_formed_line pf) pre \<Longrightarrow>
   parse_line pf l = Inl e \<Longrightarrow> parse_loop pf lines ps ts = Inl e"
proof (induction pre arbitrary: lines ps ts)
  case Nil
  then show ?case by simp
next
  case (Cons p pre)
  from Cons.prems(2) have "well_formed_line pf p" and rest: "list_all (well_formed_line pf) pre"
    by simp_all
  then obtain x y t where pl: "parse_line pf p = Inr (x, y, t)"
    using parse_line_ok_iff [of pf p] by auto
  have "parse_loop pf (pre @ l # post) (ps @ [[x, y]]) (ts @ [t]) = Inl e"
    using Cons.IH [OF refl rest Cons.prems(3)] .
  with pl Cons.prems(1) show ?case by simp
qed

lemma init_records:
  assumes "requests_get two_spiral_url = Inr text"
    and "TwoSpiralDataset_init requests_get pf f32 = Inr d"
  shows "list_all2 (stored_from pf f32) (parsed_lines text) (zip (pos d) (target d)) \<and>
         length (pos d) = length (parsed_lines text) \<and>
         length (target d) = length (parsed_lines text)"
proof -
  from assms obtain ps ts where
    loop: "parse_loop pf (parsed_lines text) [] [] = Inr (ps, ts)"
    and d: "d = \<lparr>pos = map (map f32) ps, target = map f32 ts\<rparr>"
    by (auto simp: TwoSpiralDataset_init_def split: sum.splits)
  from parse_loop_ok [OF loop] obtain trs where
    trs: "list_all2 (\<lambda>l tr. parse_line pf l = Inr tr) (parsed_lines text) trs"
      "ps = map (\<lambda>(x, y, t). [x, y]) trs" "ts = map (\<lambda>(x, y, t). t) trs"
    by auto
  have len: "length trs = length (parsed_lines text)"
    using trs(1) by (simp add: list_all2_lengthD)
  have z: "zip (pos d) (target d) = map (\<lambda>(x, y, t). ([f32 x, f32 y], f32 t)) trs"
    unfolding d trs(2,3) by (induction trs) auto
  have "list_all2 (stored_from pf f32) (parsed_lines text)
          (map (\<lambda>(x, y, t). ([f32 x, f32 y], f32 t)) trs)"
    using trs(1) by (induction rule: list_all2_induct) (auto simp: stored_from_def)
  then show ?thesis using z len d trs(2,3) by simp
qed

lemma length_slice_1_to_last: "length (slice_1_to_last xs) = length xs - 2"
  by (simp add: slice_1_to_last_def)

lemma nth_slice_1_to_last:
  "i < length xs - 2 \<Longrightarrow> slice_1_to_last xs ! i = xs ! (i + 1)"
  by (simp add: slice_1_to_last_def)

lemma np_index_in_range:
  "i < length xs \<Longrightarrow> np_index xs (int i) = Inr (xs ! i)"
  by (simp add: np_index_def)

lemma getitem_in_range:
  assumes "length (pos d) = length (target d)" and "i < len d"
  shows "getitem d (int i) =
           Inr [''input'' \<mapsto> Row (pos d ! i), ''target'' \<mapsto> Scalar (target d ! i)]"
  using assms by (simp add: getitem_def len_def np_index_in_range)

lemmas example_eval =
  serve_def TwoSpiralDataset_init_def parsed_lines_def slice_1_to_last_def newline_def tab_def
  parse_line_def float_of_digits_def digit_value_def

lemma init_example:
  "TwoSpiralDataset_init (serve example_tsv) float_of_digits id = Inr example_dataset"
  by (simp add: example_tsv_def example_dataset_def example_eval)

lemma init_invariant:
  assumes "TwoSpiralDataset_init requests_get pf f32 = Inr d"
  shows "length (pos d) = length (target d) \<and> list_all (\<lambda>row. length row = 2) (pos d)"
proof -
  from assms obtain content ps ts where
    loop: "parse_loop pf (parsed_lines content) [] [] = Inr (ps, ts)"
    and d: "d = \<lparr>pos = map (map f32) ps, target = map f32 ts\<rparr>"
    by (auto simp: TwoSpiralDataset_init_def split: sum.splits)
  from parse_loop_ok [OF loop] obtain trs where
    trs: "ps = map (\<lambda>(x, y, t). [x, y]) trs" "ts = map (\<lambda>(x, y, t). t) trs"
    by auto
  show ?thesis
    unfolding d trs by (simp add: list_all_iff case_prod_unfold)
qed

text \<open>
  The constructor does not keep one record per line of the fetched text. For a text of
  two well-formed lines it stores one record, the second line's: the first piece of the
  split is always dropped (the header's place), and so is the last.
\<close>

theorem record_count_counterexample:
  "TwoSpiralDataset_init (serve headerless_tsv) float_of_digits id =
     Inr \<lparr>pos = [[3, 4]], target = [1]\<rparr> \<and>
   text_lines headerless_tsv =
     [''1'' @ [tab] @ ''2'' @ [tab] @ ''0'', ''3'' @ [tab] @ ''4'' @ [tab] @ ''1''] \<and>
   parse_line float_of_digits (''1'' @ [tab] @ ''2'' @ [tab] @ ''0'') = Inr (1, 2, 0) \<and>
   len \<lparr>pos = [[3, 4]], target = [1::int]\<rparr> \<noteq> length (text_lines headerless_tsv)"
  by (simp add: headerless_tsv_def text_lines_def len_def example_eval)

text \<open>
  C2 (amended): when the fetch gives a text and the constructor succeeds, the pieces of
  the text split at newlines, other than the first and the last, are each parsed into a
  triple and stored as one record, in order; the number of records is the number of
  pieces minus two, \<^verbatim>\<open>__len__\<close> returns it, and \<^verbatim>\<open>__getitem__\<close> returns an example for
  every index below it.
\<close>

theorem records_are_the_inner_lines:
  assumes "requests_get two_spiral_url = Inr text"
    and "TwoSpiralDataset_init requests_get pf f32 = Inr d"
  shows "list_all2 (stored_from pf f32) (slice_1_to_last (str_split newline text))
           (zip (pos d) (target d)) \<and>
         length (pos d) = length (str_split newline text) - 2 \<and>
         len d = length (str_split newline text) - 2 \<and>
         list_all (\<lambda>i. case getitem d (int i) of Inl e \<Rightarrow> False | Inr item \<Rightarrow> True) [0..<len d]"
proof -
  note r = init_records [OF assms]
  have l: "length (pos d) = length (target d)" using r by simp
  have "\<forall>i \<in> set [0..<len d]. case getitem d (int i) of Inl e \<Rightarrow> False | Inr item \<Rightarrow> True"
    using getitem_in_range [OF l] by simp
  then have "list_all (\<lambda>i. case getitem d (int i) of Inl e \<Rightarrow> False | Inr item \<Rightarrow> True) [0..<len d]"
    unfolding list_all_iff .
  then show ?thesis
    using r by (simp add: parsed_lines_def length_slice_1_to_last len_def)
qed

theorem records_are_the_inner_lines_witness:
  "serve example_tsv two_spiral_url = Inr example_tsv \<and>
   TwoSpiralDataset_init (serve example_tsv) float_of_digits id = Inr example_dataset \<and>
   length (str_split newline example_tsv) = 4 \<and>
   len example_dataset = length (str_split newline example_tsv) - 2"
proof -
  have h1: "serve example_tsv two_spiral_url = Inr example_tsv"
    by (simp add: serve_def)
  have n: "length (str_split newline example_tsv) = 4"
    by (simp add: example_tsv_def newline_def tab_def)
  have "len example_dataset = length (str_split newline example_tsv) - 2"
    using records_are_the_inner_lines [OF h1 init_example] by (elim conjE)
  with h1 init_example n show ?thesis by (intro conjI)
qed

lemma init_ok_iff:
  "(\<exists>d. TwoSpiralDataset_init requests_get pf f32 = Inr d) \<longleftrightarrow>
   (\<exists>text. requests_get two_spiral_url = Inr text \<and>
      list_all (well_formed_line pf) (parsed_lines text))"
proof
  assume "\<exists>d. TwoSpiralDataset_init requests_get pf f32 = Inr d"
  then obtain d content r where
    f: "requests_get two_spiral_url = Inr content"
    and loop: "parse_loop pf (parsed_lines content) [] [] = Inr r"
    by (auto simp: TwoSpiralDataset_init_def split: sum.splits)
  obtain ps ts where r: "r = (ps, ts)" by (cases r)
  from parse_loop_ok [OF loop [unfolded r]] obtain trs where
    "list_all2 (\<lambda>l tr. parse_line pf l = Inr tr) (parsed_lines content) trs" by blast
  then have "list_all (well_formed_line pf) (parsed_lines content)"
    by (induction rule: list_all2_induct) (use parse_line_ok_iff [of pf] in auto)
  with f show "\<exists>text. requests_get two_spiral_url = Inr text \<and>
      list_all (well_formed_line pf) (parsed_lines text)" by blast
next
  assume "\<exists>text. requests_get two_spiral_url = Inr text \<and>
      list_all (well_formed_line pf) (parsed_lines text)"
  then obtain content where f: "requests_get two_spiral_url = Inr content"
    and wf: "list_all (well_formed_line pf) (parsed_lines content)" by blast
  from parse_loop_succeeds [OF wf] obtain r where
    "parse_loop pf (parsed_lines content) [] [] = Inr r" by blast
  with f show "\<exists>d. TwoSpiralDataset_init requests_get pf f32 = Inr d"
    by (cases r) (simp add: TwoSpiralDataset_init_def)
qed

lemma init_error_iff:
  "TwoSpiralDataset_init requests_get pf f32 = Inl e \<longleftrightarrow>
   requests_get two_spiral_url = Inl e \<or>
   (\<exists>text pre l post. requests_get two_spiral_url = Inr text \<and>
      parsed_lines text = pre @ l # post \<and> list_all (well_formed_line pf) pre \<and>
      parse_line pf l = Inl e)"
proof (cases "requests_get two_spiral_url")
  case (Inl e')
  then show ?thesis by (auto simp: TwoSpiralDataset_init_def)
next
  case (Inr content)
  have "TwoSpiralDataset_init requests_get pf f32 = Inl e \<longleftrightarrow>
        parse_loop pf (parsed_lines content) [] [] = Inl e"
    using Inr by (auto simp: TwoSpiralDataset_init_def split: sum.splits)
  also have "\<dots> \<longleftrightarrow> (\<exists>pre l post. parsed_lines content = pre @ l # post \<and>
      list_all (well_formed_line pf) pre \<and> parse_line pf l = Inl e)"
    using parse_loop_fails [of pf "parsed_lines content" "[]" "[]" e]
      parse_loop_failing_line [of "parsed_lines content" _ _ _ pf e "[]" "[]"]
    by blast
  finally show ?thesis using Inr by simp
qed

lemma parse_line_error_iff:
  "parse_line pf l = Inl e \<longleftrightarrow>
   (case str_split tab l of
      [a, b, c] \<Rightarrow>
        pf a = Inl e \<or> convertible pf a \<and> pf b = Inl e \<or>
        convertible pf a \<and> convertible pf b \<and> pf c = Inl e
    | pieces \<Rightarrow>
        e = ValueError (if length pieces < 3 then ''not enough values to unpack''
                        else ''too many values to unpack''))"
  by (auto simp: parse_line_def convertible_def split: list.splits sum.splits)

text \<open>
  C3: the constructor fails with \<open>e\<close> exactly when the fetch raised \<open>e\<close>, or the fetch gave a
  text and the first parsed line that is not well formed raised \<open>e\<close>; a line raises either
  the unpacking \<^verbatim>\<open>ValueError\<close> (not exactly three fields) or the exception of the first
  field, in the order x, y, label, that \<^verbatim>\<open>float\<close> rejects. Nothing is caught, retried or
  replaced on the way. The constructor succeeds exactly when the fetch gave a text whose
  parsed lines are all well formed.
\<close>

theorem init_failures_propagate:
  "(TwoSpiralDataset_init requests_get pf f32 = Inl e \<longleftrightarrow>
      requests_get two_spiral_url = Inl e \<or>
      (\<exists>text pre l post. requests_get two_spiral_url = Inr text \<and>
         parsed_lines text = pre @ l # post \<and> list_all (well_formed_line pf) pre \<and>
         parse_line pf l = Inl e)) \<and>
   (parse_line pf line = Inl e' \<longleftrightarrow>
      (case str_split tab line of
         [a, b, c] \<Rightarrow>
           pf a = Inl e' \<or> convertible pf a \<and> pf b = Inl e' \<or>
           convertible pf a \<and> convertible pf b \<and> pf c = Inl e'
       | pieces \<Rightarrow>
           e' = ValueError (if length pieces < 3 then ''not enough values to unpack''
                            else ''too many values to unpack''))) \<and>
   ((\<exists>d. TwoSpiralDataset_init requests_get pf f32 = Inr d) \<longleftrightarrow>
      (\<exists>text. requests_get two_spiral_url = Inr text \<and>
         list_all (well_formed_line pf) (parsed_lines text)))"
  using init_error_iff [of requests_get pf f32 e] parse_line_error_iff [of pf line e']
    init_ok_iff [of requests_get pf f32]
  by (intro conjI)

theorem init_failures_propagate_witness:
  "TwoSpiralDataset_init (refuse ''connection refused'')
      float_of_digits (id :: int \<Rightarrow> int) = Inl (RequestException ''connection refused'') \<and>
   TwoSpiralDataset_init (serve short_line_tsv) float_of_digits (id :: int \<Rightarrow> int) =
      Inl (ValueError ''not enough values to unpack'') \<and>
   list_all (well_formed_line float_of_digits) (parsed_lines example_tsv) \<and>
   TwoSpiralDataset_init (serve example_tsv) float_of_digits id = Inr example_dataset"
proof -
  note inst = init_failures_propagate [of "refuse ''connection refused''" float_of_digits id
      "RequestException ''connection refused''"]
  have r: "refuse ''connection refused'' two_spiral_url =
      Inl (RequestException ''connection refused'')"
    by (simp add: refuse_def)
  have a: "TwoSpiralDataset_init (refuse ''connection refused'') float_of_digits
      (id :: int \<Rightarrow> int) = Inl (RequestException ''connection refused'')"
    using inst r by simp
  have b: "TwoSpiralDataset_init (serve short_line_tsv) float_of_digits (id :: int \<Rightarrow> int) =
      Inl (ValueError ''not enough values to unpack'')"
    by (simp add: short_line_tsv_def example_eval)
  have c: "list_all (well_formed_line float_of_digits) (parsed_lines example_tsv)"
    by (simp add: example_tsv_def well_formed_line_def convertible_def example_eval)
  from a b c init_example show ?thesis by (intro conjI)
qed

text \<open>
  C4: after construction the position array and the target array have the same length,
  \<^verbatim>\<open>__len__\<close> returns it, every index below it gives the row of two coordinates and the
  label stored at that index, and no sequence of \<^verbatim>\<open>__getitem__\<close> and \<^verbatim>\<open>__len__\<close> calls
  changes the object.
\<close>

theorem each_coordinate_has_one_label:
  assumes "TwoSpiralDataset_init requests_get pf f32 = Inr d"
  shows "length (pos d) = length (target d) \<and>
         len d = length (pos d) \<and>
         list_all (\<lambda>i. getitem d (int i) =
                     Inr [''input'' \<mapsto> Row (pos d ! i), ''target'' \<mapsto> Scalar (target d ! i)] \<and>
                   length (pos d ! i) = 2) [0..<len d] \<and>
         call_methods calls d = d"
proof -
  note inv = init_invariant [OF assms]
  have l: "length (pos d) = length (target d)" using inv by simp
  have rows: "\<forall>row \<in> set (pos d). length row = 2" using inv by (simp add: list_all_iff)
  have "\<forall>i \<in> set [0..<len d]. getitem d (int i) =
          Inr [''input'' \<mapsto> Row (pos d ! i), ''target'' \<mapsto> Scalar (target d ! i)] \<and>
        length (pos d ! i) = 2"
    using getitem_in_range [OF l] rows l by (simp add: len_def)
  then have items: "list_all (\<lambda>i. getitem d (int i) =
                     Inr [''input'' \<mapsto> Row (pos d ! i), ''target'' \<mapsto> Scalar (target d ! i)] \<and>
                   length (pos d ! i) = 2) [0..<len d]"
    unfolding list_all_iff .
  have same: "call_methods cs d = d" for cs
  proof (induction cs)
    case Nil
    show ?case by simp
  next
    case (Cons c cs)
    then show ?case by (cases c) simp_all
  qed
  from l items same [of calls] show ?thesis by (simp add: len_def)
qed

theorem each_coordinate_has_one_label_witness:
  "TwoSpiralDataset_init (serve example_tsv) float_of_digits id = Inr example_dataset \<and>
   length (pos example_dataset) = length (target example_dataset) \<and>
   len example_dataset = 2 \<and>
   call_methods [GetItem 0, Len, GetItem 5] example_dataset = example_dataset"
proof -
  note inst = each_coordinate_has_one_label [OF init_example, of "[GetItem 0, Len, GetItem 5]"]
  have a: "length (pos example_dataset) = length (target example_dataset)"
    using inst by (elim conjE)
  have b: "call_methods [GetItem 0, Len, GetItem 5] example_dataset = example_dataset"
    using inst by (elim conjE)
  have c: "len example_dataset = 2"
    by (simp add: len_def example_dataset_def)
  from init_example a b c show ?thesis by (intro conjI)
qed

text \<open>
  C5: for every index \<open>i\<close> below the length, \<^verbatim>\<open>__getitem__(i)\<close> returns the pair and the label
  parsed from the \<open>i\<close>-th parsed line, that is from piece \<open>i + 1\<close> of the text split at
  newlines: records keep the order of the file. The stored values are the parsed numbers
  converted to \<^verbatim>\<open>float32\<close>.
\<close>

theorem getitem_returns_ith_parsed_line:
  assumes "requests_get two_spiral_url = Inr text"
    and "TwoSpiralDataset_init requests_get pf f32 = Inr d"
    and "i < len d"
  shows "i < length (parsed_lines text) \<and>
         parsed_lines text ! i = str_split newline text ! (i + 1) \<and>
         (\<exists>x y t. parse_line pf (parsed_lines text ! i) = Inr (x, y, t) \<and>
            getitem d (int i) =
              Inr [''input'' \<mapsto> Row [f32 x, f32 y], ''target'' \<mapsto> Scalar (f32 t)])"
proof -
  note r = init_records [OF assms(1,2)]
  have l: "length (pos d) = length (target d)" using r by simp
  have i: "i < length (parsed_lines text)" using assms(3) r by (simp add: len_def)
  then have i2: "i < length (str_split newline text) - 2"
    by (simp add: parsed_lines_def length_slice_1_to_last)
  have nth: "parsed_lines text ! i = str_split newline text ! (i + 1)"
    unfolding parsed_lines_def using i2 by (rule nth_slice_1_to_last)
  have all: "list_all2 (stored_from pf f32) (parsed_lines text) (zip (pos d) (target d))"
    using r by simp
  have "stored_from pf f32 (parsed_lines text ! i) (zip (pos d) (target d) ! i)"
    using list_all2_nthD [OF all i] .
  moreover have "zip (pos d) (target d) ! i = (pos d ! i, target d ! i)"
    using i r by (intro nth_zip) simp_all
  ultimately have st: "stored_from pf f32 (parsed_lines text ! i) (pos d ! i, target d ! i)"
    by simp
  then obtain x y t where
    pl: "parse_line pf (parsed_lines text ! i) = Inr (x, y, t)"
    and row: "pos d ! i = [f32 x, f32 y]" and lab: "target d ! i = f32 t"
    by (auto simp: stored_from_def split: sum.splits)
  have "getitem d (int i) =
      Inr [''input'' \<mapsto> Row [f32 x, f32 y], ''target'' \<mapsto> Scalar (f32 t)]"
    using getitem_in_range [OF l assms(3)] row lab by simp
  with pl i nth show ?thesis by blast
qed

theorem getitem_returns_ith_parsed_line_witness:
  "serve example_tsv two_spiral_url = Inr example_tsv \<and>
   TwoSpiralDataset_init (serve example_tsv) float_of_digits id = Inr example_dataset \<and>
   1 < len example_dataset \<and>
   parsed_lines example_tsv ! 1 = ''3'' @ [tab] @ ''4'' @ [tab] @ ''1'' \<and>
   getitem example_dataset 1 = Inr [''input'' \<mapsto> Row [3, 4], ''target'' \<mapsto> Scalar 1]"
proof -
  have h1: "serve example_tsv two_spiral_url = Inr example_tsv"
    by (simp add: serve_def)
  have h3: "1 < len example_dataset"
    by (simp add: len_def example_dataset_def)
  have line: "parsed_lines example_tsv ! 1 = ''3'' @ [tab] @ ''4'' @ [tab] @ ''1''"
    by (simp add: example_tsv_def example_eval)
  have "\<exists>x y t. parse_line float_of_digits (parsed_lines example_tsv ! 1) = Inr (x, y, t) \<and>
          getitem example_dataset (int 1) =
            Inr [''input'' \<mapsto> Row [id x, id y], ''target'' \<mapsto> Scalar (id t)]"
    using getitem_returns_ith_parsed_line [OF h1 init_example h3] by (elim conjE)
  then obtain x y t where
    pl: "parse_line float_of_digits (parsed_lines example_tsv ! 1) = Inr (x, y, t)"
    and g: "getitem example_dataset (int 1) =
            Inr [''input'' \<mapsto> Row [id x, id y], ''target'' \<mapsto> Scalar (id t)]"
    by blast
  have "parse_line float_of_digits (parsed_lines example_tsv ! 1) = Inr (3, 4, 1)"
    unfolding line by (simp add: example_eval)
  with pl have "x = 3" "y = 4" "t = 1" by simp_all
  with g have "getitem example_dataset 1 = Inr [''input'' \<mapsto> Row [3, 4], ''target'' \<mapsto> Scalar 1]"
    by simp
  with h1 init_example h3 line show ?thesis by (intro conjI)
qed

text \<open>
  C6: for every index below the length of a constructed dataset, \<^verbatim>\<open>__getitem__\<close> returns
  a dictionary whose keys are exactly \<open>input\<close> and \<open>target\<close>, with the row of two coordinates
  at \<open>input\<close> and the label at \<open>target\<close>.
\<close>

theorem getitem_keys_are_input_and_target:
  assumes "TwoSpiralDataset_init requests_get pf f32 = Inr d"
    and "i < len d"
  shows "\<exists>item. getitem d (int i) = Inr item \<and>
           dom item = {''input'', ''target''} \<and>
           item ''input'' = Some (Row (pos d ! i)) \<and>
           item ''target'' = Some (Scalar (target d ! i)) \<and>
           length (pos d ! i) = 2"
proof -
  note inv = init_invariant [OF assms(1)]
  have l: "length (pos d) = length (target d)" using inv by simp
  have "pos d ! i \<in> set (pos d)" using assms(2) l by (simp add: len_def)
  then have two: "length (pos d ! i) = 2" using inv by (simp add: list_all_iff)
  let ?item = "[''input'' \<mapsto> Row (pos d ! i), ''target'' \<mapsto> Scalar (target d ! i)]"
  have g: "getitem d (int i) = Inr ?item"
    using getitem_in_range [OF l assms(2)] .
  have "dom ?item = {''input'', ''target''}" by auto
  moreover have "?item ''input'' = Some (Row (pos d ! i))" by simp
  moreover have "?item ''target'' = Some (Scalar (target d ! i))" by simp
  ultimately show ?thesis using g two by blast
qed

theorem getitem_keys_are_input_and_target_witness:
  "TwoSpiralDataset_init (serve example_tsv) float_of_digits id = Inr example_dataset \<and>
   0 < len example_dataset \<and>
   (\<exists>item. getitem example_dataset 0 = Inr item \<and> dom item = {''input'', ''target''} \<and>
      item ''input'' = Some (Row [1, 2]) \<and> item ''target'' = Some (Scalar 0))"
proof -
  have h2: "0 < len example_dataset"
    by (simp add: len_def example_dataset_def)
  have "\<exists>item. getitem example_dataset (int 0) = Inr item \<and>
           dom item = {''input'', ''target''} \<and>
           item ''input'' = Some (Row (pos example_dataset ! 0)) \<and>
           item ''target'' = Some (Scalar (target example_dataset ! 0)) \<and>
           length (pos example_dataset ! 0) = 2"
    using getitem_keys_are_input_and_target [OF init_example h2] .
  then have "\<exists>item. getitem example_dataset 0 = Inr item \<and> dom item = {''input'', ''target''} \<and>
      item ''input'' = Some (Row [1, 2]) \<and> item ''target'' = Some (Scalar 0)"
    by (simp add: example_dataset_def)
  with init_example h2 show ?thesis by (intro conjI)
qed

section \<open>Properties of the model\<close>

lemma linear_stack_batch:
  "linear_stack ws [b, n] = [b, last (n # ws)]"
  by (induction ws arbitrary: n) simp_all

text \<open>
  C7: the model is configured with input size 2 and output size 1; on a batch of \<open>b\<close>
  two-feature examples the perceptron gives shape \<open>[b, 1]\<close>, and \<^verbatim>\<open>forward\<close> squeezes it to
  \<open>[b]\<close> (to a zero-dimensional tensor when \<open>b = 1\<close>): one scalar per example.
\<close>

theorem forward_gives_one_scalar_per_example:
  "input_size Model_mlp = 2 \<and> output_size Model_mlp = 1 \<and>
   MLP_shape Model_mlp [b, 2] = Some [b, 1] \<and>
   forward_shape [b, 2] = Some (if b = 1 then [] else [b]) \<and>
   map_option numel (forward_shape [b, 2]) = Some b"
  by (simp add: forward_shape_def MLP_shape_def Model_mlp_def layer_widths_def
      linear_stack_batch squeeze_def numel_def)

end
